theory Spec2Isabelle
  imports Main "HOL-Library.Sublist"
begin

section \<open>Account attribute inference of \<^verbatim>\<open>info.py\<close>\<close>

text \<open>
  The source is \<^verbatim>\<open>src/info.py\<close>, class \<^verbatim>\<open>TelegramAccountAnalyzer\<close>. Its three estimators
  (\<^verbatim>\<open>_estimate_registration_date\<close>, \<^verbatim>\<open>_estimate_country\<close>, \<^verbatim>\<open>_get_user_status\<close>) and the
  dictionary that \<^verbatim>\<open>get_user_info\<close> assembles from them are embedded below. An Isabelle name
  cannot start with an underscore, so the leading underscore of each method name is dropped.

  Conventions of the embedding.
  \<^item> Text that the program only copies, compares as a whole or concatenates (labels,
    messages, type names, the strings of the result) is a \<^typ>\<open>string\<close> holding its UTF-8
    bytes, so an ASCII character is one \<^typ>\<open>char\<close> and the non-ASCII characters of the
    source's literals are their bytes.
  \<^item> Text that the program measures, slices, lowercases or filters character by character
    (the language tag and the phone) is the list of its code points, a \<open>ustr\<close>: \<^verbatim>\<open>len\<close> is
    \<^const>\<open>length\<close> and \<^verbatim>\<open>s[:n]\<close> is \<^const>\<open>take\<close>. The keys of the two tables are compared with
    such text and are written as code points too.
  \<^item> \<^verbatim>\<open>str.lower\<close> and \<^verbatim>\<open>str.isdigit\<close> belong to Python, not to this program. On ASCII text
    they are written out below. Beyond ASCII they are read from Python's Unicode tables,
    which are an argument of the model (\<open>unicode\<close>): every statement holds whatever the
    tables say.
  \<^item> A dynamically typed value is a \<open>val\<close>; an attribute that the object may lack is a
    \<open>val option\<close>, \<open>None\<close> standing for \<^verbatim>\<open>hasattr\<close> being false.
  \<^item> A raised exception is the \<open>Inl\<close> of a sum; every \<^verbatim>\<open>try/except Exception\<close> of the source is
    a case distinction on it.
  \<^item> The effects of the source are the read of the wall clock (\<^verbatim>\<open>datetime.now()\<close>) and the
    lines written through \<^verbatim>\<open>logger.error\<close>; both live in a \<open>world\<close> that every estimator
    takes and returns.
\<close>

subsection \<open>Values, exceptions, world\<close>

text \<open>
  \<^verbatim>\<open>None\<close>, an \<^verbatim>\<open>int\<close> or a \<^verbatim>\<open>str\<close>; the parameter is the type of the characters of the
  \<^verbatim>\<open>str\<close>: bytes for a \<open>pyval\<close>, code points for a \<open>pytext\<close>.
\<close>

datatype 'c val = PNone | PInt int | PStr "'c list"

type_synonym pyval = "char val"

type_synonym ustr = "nat list"

type_synonym pytext = "nat val"

datatype exn = TypeError | AttributeError | ValueError

text \<open>Python truthiness, as used by \<^verbatim>\<open>if user.phone\<close> and \<^verbatim>\<open>not phone\<close>.\<close>

fun truthy :: "'c val \<Rightarrow> bool" where
  "truthy PNone = False"
| "truthy (PInt n) = (n \<noteq> 0)"
| "truthy (PStr s) = (s \<noteq> [])"

text \<open>
  The clock is the naive local time in microseconds; reading it does not advance it (the
  clock is frozen during one analysis). The log holds, oldest first, the message prefix of
  each \<^verbatim>\<open>logger.error\<close> call and the exception it reports.
\<close>

record world =
  clock :: int
  log :: "(string \<times> exn) list"

definition logger_error :: "string \<Rightarrow> exn \<Rightarrow> world \<Rightarrow> world" where
  "logger_error msg e w = w\<lparr>log := log w @ [(msg, e)]\<rparr>"

subsection \<open>Registration date (\<^verbatim>\<open>_estimate_registration_date\<close>, lines 143-181)\<close>

text \<open>
  The result dictionary: \<^verbatim>\<open>year\<close>, \<^verbatim>\<open>month\<close> and \<^verbatim>\<open>day\<close> are integers on the normal paths
  and the string \<^verbatim>\<open>'Unknown'\<close> in the handler, hence \<open>pyval\<close>.
\<close>

record reg_estimate =
  year :: pyval
  month :: pyval
  day :: pyval
  estimated :: bool
  accuracy :: string

text \<open>
  \<^verbatim>\<open>id_ranges\<close>: each entry is \<^verbatim>\<open>(threshold, {'year': y, 'month': m, 'day': d})\<close>; the inner
  dictionary is the triple \<open>(y, m, d)\<close>.
\<close>

type_synonym date_info = "int \<times> int \<times> int"

definition id_ranges :: "(int \<times> date_info) list" where
  "id_ranges =
   [(1000, (2013, 8, 14)),
    (10000, (2013, 9, 15)),
    (100000, (2013, 11, 1)),
    (1000000, (2014, 3, 1)),
    (10000000, (2015, 6, 1)),
    (50000000, (2016, 6, 1)),
    (100000000, (2017, 1, 1)),
    (200000000, (2017, 8, 1)),
    (400000000, (2018, 6, 1)),
    (600000000, (2019, 3, 1)),
    (800000000, (2019, 9, 1)),
    (1000000000, (2020, 3, 1)),
    (1200000000, (2020, 8, 1)),
    (1400000000, (2021, 1, 1)),
    (1600000000, (2021, 6, 1)),
    (1800000000, (2022, 1, 1)),
    (2000000000, (2022, 6, 1)),
    (2200000000, (2023, 1, 1)),
    (2400000000, (2023, 6, 1)),
    (2600000000, (2024, 1, 1))]"

text \<open>\<^verbatim>\<open>{**date_info, 'estimated': True, 'accuracy': 'approximate'}\<close>\<close>

fun approximate :: "date_info \<Rightarrow> reg_estimate" where
  "approximate (y, m, d) =
     \<lparr>year = PInt y, month = PInt m, day = PInt d, estimated = True,
      accuracy = ''approximate''\<rparr>"

text \<open>The return after the loop, "for very new users" (line 177).\<close>

definition newest :: date_info where
  "newest = (2024, 6, 1)"

text \<open>The dictionary returned by the handler (line 181).\<close>

definition failed_estimate :: reg_estimate where
  "failed_estimate =
     \<lparr>year = PStr ''Unknown'', month = PStr ''Unknown'', day = PStr ''Unknown'',
      estimated = True, accuracy = ''failed''\<rparr>"

text \<open>
  \<^verbatim>\<open>user_id < threshold\<close> with an \<^verbatim>\<open>int\<close> on the right: Python 3 compares two integers and
  raises \<^verbatim>\<open>TypeError\<close> for \<^verbatim>\<open>None\<close> or a \<^verbatim>\<open>str\<close> on the left.
\<close>

fun py_less_int :: "pyval \<Rightarrow> int \<Rightarrow> exn + bool" where
  "py_less_int (PInt n) t = Inr (n < t)"
| "py_less_int PNone t = Inl TypeError"
| "py_less_int (PStr s) t = Inl TypeError"

text \<open>The \<^verbatim>\<open>for threshold, date_info in id_ranges\<close> loop with the return that follows it.\<close>

fun scan_ranges :: "pyval \<Rightarrow> (int \<times> date_info) list \<Rightarrow> exn + reg_estimate" where
  "scan_ranges user_id [] = Inr (approximate newest)"
| "scan_ranges user_id ((threshold, date) # rest) =
     (case py_less_int user_id threshold of
        Inl e \<Rightarrow> Inl e
      | Inr True \<Rightarrow> Inr (approximate date)
      | Inr False \<Rightarrow> scan_ranges user_id rest)"

definition estimate_registration_date :: "pyval \<Rightarrow> world \<Rightarrow> reg_estimate \<times> world" where
  "estimate_registration_date user_id w =
     (case scan_ranges user_id id_ranges of
        Inr r \<Rightarrow> (r, w)
      | Inl e \<Rightarrow> (failed_estimate, logger_error ''Error estimating registration date'' e w))"

subsection \<open>Strings\<close>

text \<open>An ASCII literal as code points.\<close>

definition ascii :: "string \<Rightarrow> ustr" where
  "ascii s = map of_char s"

text \<open>
  What Python's Unicode tables decide: \<^verbatim>\<open>str.lower\<close> of a string that has a character beyond
  ASCII, and \<^verbatim>\<open>str.isdigit\<close> of a character beyond ASCII.
\<close>

record unicode =
  lower_beyond :: "ustr \<Rightarrow> ustr"
  isdigit_beyond :: "nat \<Rightarrow> bool"

text \<open>
  \<^verbatim>\<open>str.isdigit\<close> of one character, as \<^verbatim>\<open>filter(str.isdigit, phone)\<close> applies it: among the
  ASCII characters exactly \<open>0\<close> to \<open>9\<close> are digits.
\<close>

definition isdigit :: "unicode \<Rightarrow> nat \<Rightarrow> bool" where
  "isdigit ucd c = (if c < 128 then 48 \<le> c \<and> c \<le> 57 else isdigit_beyond ucd c)"

text \<open>
  \<^verbatim>\<open>str.lower\<close>: on a string of ASCII characters it maps \<open>A\<close> to \<open>Z\<close> to \<open>a\<close> to \<open>z\<close> and keeps
  the rest.
\<close>

definition lower :: "unicode \<Rightarrow> ustr \<Rightarrow> ustr" where
  "lower ucd s =
     (if list_all (\<lambda>c. c < 128) s then map (\<lambda>c. if 65 \<le> c \<and> c \<le> 90 then c + 32 else c) s
      else lower_beyond ucd s)"

text \<open>\<^verbatim>\<open>sub in s\<close> for strings: \<open>sub\<close> occurs in \<open>s\<close> as a contiguous block.\<close>

fun contains :: "string \<Rightarrow> string \<Rightarrow> bool" where
  "contains sub [] = (sub = [])"
| "contains sub (c # cs) = (prefix sub (c # cs) \<or> contains sub cs)"

text \<open>
  \<^verbatim>\<open>s.replace(old, '')\<close>: the occurrences of \<open>old\<close> are removed from left to right, without
  overlap; an empty \<open>old\<close> leaves \<open>s\<close> as it is.
\<close>

function remove_all :: "string \<Rightarrow> string \<Rightarrow> string" where
  "remove_all old [] = []"
| "remove_all old (c # cs) =
     (if old \<noteq> [] \<and> prefix old (c # cs) then remove_all old (drop (length old) (c # cs))
      else c # remove_all old cs)"
  by pat_completeness auto
termination
  by (relation "measure (\<lambda>(old, s). length s)") auto

text \<open>The decimal digits of an integer, as \<^verbatim>\<open>str\<close> and an f-string print it.\<close>

fun nat_digits :: "nat \<Rightarrow> string" where
  "nat_digits n =
     (if n < 10 then [''0123456789'' ! n]
      else nat_digits (n div 10) @ [''0123456789'' ! (n mod 10)])"

declare nat_digits.simps [simp del]

definition int_str :: "int \<Rightarrow> string" where
  "int_str i = (if i < 0 then ''-'' @ nat_digits (nat (- i)) else nat_digits (nat i))"

fun py_str :: "pyval \<Rightarrow> string" where
  "py_str PNone = ''None''"
| "py_str (PInt n) = int_str n"
| "py_str (PStr s) = s"

subsection \<open>Country (\<^verbatim>\<open>_country_from_lang_code\<close>, \<^verbatim>\<open>_country_from_phone\<close>, \<^verbatim>\<open>_estimate_country\<close>)\<close>

text \<open>\<^verbatim>\<open>lang_country_map\<close> (lines 206-289): the items of the dictionary display, then the dictionary.\<close>

definition lang_country_items :: "(ustr \<times> string) list" where
  "lang_country_items = [
    (ascii ''en'', ''English Speaking Region''),
    (ascii ''ru'', ''Russia/CIS Countries''),
    (ascii ''es'', ''Spain/Latin America''),
    (ascii ''pt'', ''Portugal/Brazil''),
    (ascii ''fr'', ''France/Francophone Countries''),
    (ascii ''de'', ''Germany/DACH Region''),
    (ascii ''it'', ''Italy''),
    (ascii ''tr'', ''Turkey''),
    (ascii ''ar'', ''Arabic Speaking Countries''),
    (ascii ''fa'', ''Iran/Persian Speaking''),
    (ascii ''hi'', ''India/Hindi Speaking''),
    (ascii ''zh'', ''China/Chinese Speaking''),
    (ascii ''ja'', ''Japan''),
    (ascii ''ko'', ''South Korea''),
    (ascii ''uk'', ''Ukraine''),
    (ascii ''pl'', ''Poland''),
    (ascii ''nl'', ''Netherlands''),
    (ascii ''sv'', ''Sweden''),
    (ascii ''da'', ''Denmark''),
    (ascii ''no'', ''Norway''),
    (ascii ''fi'', ''Finland''),
    (ascii ''cs'', ''Czech Republic''),
    (ascii ''hu'', ''Hungary''),
    (ascii ''ro'', ''Romania''),
    (ascii ''bg'', ''Bulgaria''),
    (ascii ''hr'', ''Croatia''),
    (ascii ''sk'', ''Slovakia''),
    (ascii ''sl'', ''Slovenia''),
    (ascii ''et'', ''Estonia''),
    (ascii ''lv'', ''Latvia''),
    (ascii ''lt'', ''Lithuania''),
    (ascii ''el'', ''Greece''),
    (ascii ''he'', ''Israel''),
    (ascii ''th'', ''Thailand''),
    (ascii ''vi'', ''Vietnam''),
    (ascii ''id'', ''Indonesia''),
    (ascii ''ms'', ''Malaysia''),
    (ascii ''tl'', ''Philippines''),
    (ascii ''bn'', ''Bangladesh/Bengal''),
    (ascii ''ur'', ''Pakistan/Urdu Speaking''),
    (ascii ''ta'', ''Tamil Speaking Regions''),
    (ascii ''te'', ''Telugu Speaking Regions''),
    (ascii ''ml'', ''Malayalam Speaking Regions''),
    (ascii ''kn'', ''Kannada Speaking Regions''),
    (ascii ''gu'', ''Gujarati Speaking Regions''),
    (ascii ''pa'', ''Punjabi Speaking Regions''),
    (ascii ''ne'', ''Nepal''),
    (ascii ''si'', ''Sri Lanka''),
    (ascii ''my'', ''Myanmar''),
    (ascii ''km'', ''Cambodia''),
    (ascii ''lo'', ''Laos''),
    (ascii ''ka'', ''Georgia''),
    (ascii ''hy'', ''Armenia''),
    (ascii ''az'', ''Azerbaijan''),
    (ascii ''kk'', ''Kazakhstan''),
    (ascii ''ky'', ''Kyrgyzstan''),
    (ascii ''uz'', ''Uzbekistan''),
    (ascii ''tg'', ''Tajikistan''),
    (ascii ''tk'', ''Turkmenistan''),
    (ascii ''mn'', ''Mongolia''),
    (ascii ''be'', ''Belarus''),
    (ascii ''mk'', ''North Macedonia''),
    (ascii ''sq'', ''Albania''),
    (ascii ''sr'', ''Serbia''),
    (ascii ''bs'', ''Bosnia and Herzegovina''),
    (ascii ''me'', ''Montenegro''),
    (ascii ''is'', ''Iceland''),
    (ascii ''mt'', ''Malta''),
    (ascii ''ga'', ''Ireland''),
    (ascii ''cy'', ''Wales''),
    (ascii ''gd'', ''Scotland''),
    (ascii ''eu'', ''Basque Region''),
    (ascii ''ca'', ''Catalonia''),
    (ascii ''gl'', ''Galicia''),
    (ascii ''af'', ''South Africa/Afrikaans''),
    (ascii ''sw'', ''East Africa/Swahili''),
    (ascii ''am'', ''Ethiopia''),
    (ascii ''zu'', ''South Africa/Zulu''),
    (ascii ''xh'', ''South Africa/Xhosa''),
    (ascii ''yo'', ''Nigeria/Yoruba''),
    (ascii ''ig'', ''Nigeria/Igbo''),
    (ascii ''ha'', ''West Africa/Hausa'')]"

definition lang_country_map :: "ustr \<rightharpoonup> string" where
  "lang_country_map = map_of lang_country_items"

text \<open>
  \<^verbatim>\<open>lang_country_map.get(lang_code.lower(), 'Unknown')\<close>. Only a \<^verbatim>\<open>str\<close> has \<^verbatim>\<open>lower\<close>: on
  \<^verbatim>\<open>None\<close> or an integer the attribute access raises \<^verbatim>\<open>AttributeError\<close>.
\<close>

fun country_from_lang_code :: "unicode \<Rightarrow> pytext \<Rightarrow> exn + string" where
  "country_from_lang_code ucd (PStr tag) =
     Inr (case lang_country_map (lower ucd tag) of Some c \<Rightarrow> c | None \<Rightarrow> ''Unknown'')"
| "country_from_lang_code ucd PNone = Inl AttributeError"
| "country_from_lang_code ucd (PInt n) = Inl AttributeError"

text \<open>\<^verbatim>\<open>country_codes\<close> (lines 301-507), in the same way.\<close>

definition country_code_items :: "(ustr \<times> string) list" where
  "country_code_items = [
    (ascii ''1'', ''USA/Canada''),
    (ascii ''7'', ''Russia/Kazakhstan''),
    (ascii ''20'', ''Egypt''),
    (ascii ''27'', ''South Africa''),
    (ascii ''30'', ''Greece''),
    (ascii ''31'', ''Netherlands''),
    (ascii ''32'', ''Belgium''),
    (ascii ''33'', ''France''),
    (ascii ''34'', ''Spain''),
    (ascii ''36'', ''Hungary''),
    (ascii ''39'', ''Italy''),
    (ascii ''40'', ''Romania''),
    (ascii ''41'', ''Switzerland''),
    (ascii ''43'', ''Austria''),
    (ascii ''44'', ''United Kingdom''),
    (ascii ''45'', ''Denmark''),
    (ascii ''46'', ''Sweden''),
    (ascii ''47'', ''Norway''),
    (ascii ''48'', ''Poland''),
    (ascii ''49'', ''Germany''),
    (ascii ''51'', ''Peru''),
    (ascii ''52'', ''Mexico''),
    (ascii ''53'', ''Cuba''),
    (ascii ''54'', ''Argentina''),
    (ascii ''55'', ''Brazil''),
    (ascii ''56'', ''Chile''),
    (ascii ''57'', ''Colombia''),
    (ascii ''58'', ''Venezuela''),
    (ascii ''60'', ''Malaysia''),
    (ascii ''61'', ''Australia''),
    (ascii ''62'', ''Indonesia''),
    (ascii ''63'', ''Philippines''),
    (ascii ''64'', ''New Zealand''),
    (ascii ''65'', ''Singapore''),
    (ascii ''66'', ''Thailand''),
    (ascii ''81'', ''Japan''),
    (ascii ''82'', ''South Korea''),
    (ascii ''84'', ''Vietnam''),
    (ascii ''86'', ''China''),
    (ascii ''90'', ''Turkey''),
    (ascii ''91'', ''India''),
    (ascii ''92'', ''Pakistan''),
    (ascii ''93'', ''Afghanistan''),
    (ascii ''94'', ''Sri Lanka''),
    (ascii ''95'', ''Myanmar''),
    (ascii ''98'', ''Iran''),
    (ascii ''212'', ''Morocco''),
    (ascii ''213'', ''Algeria''),
    (ascii ''216'', ''Tunisia''),
    (ascii ''218'', ''Libya''),
    (ascii ''220'', ''Gambia''),
    (ascii ''221'', ''Senegal''),
    (ascii ''222'', ''Mauritania''),
    (ascii ''223'', ''Mali''),
    (ascii ''224'', ''Guinea''),
    (ascii ''225'', ''Ivory Coast''),
    (ascii ''226'', ''Burkina Faso''),
    (ascii ''227'', ''Niger''),
    (ascii ''228'', ''Togo''),
    (ascii ''229'', ''Benin''),
    (ascii ''230'', ''Mauritius''),
    (ascii ''231'', ''Liberia''),
    (ascii ''232'', ''Sierra Leone''),
    (ascii ''233'', ''Ghana''),
    (ascii ''234'', ''Nigeria''),
    (ascii ''235'', ''Chad''),
    (ascii ''236'', ''Central African Republic''),
    (ascii ''237'', ''Cameroon''),
    (ascii ''238'', ''Cape Verde''),
    (ascii ''239'', ''S'' @ [CHR 0xE2, CHR 0x88, CHR 0x9A, CHR 0xC2, CHR 0xA3] @ ''o Tom'' @ [CHR 0xE2, CHR 0x88, CHR 0x9A, CHR 0xC2, CHR 0xA9] @ '' and Pr'' @ [CHR 0xE2, CHR 0x88, CHR 0x9A, CHR 0xE2, CHR 0x89, CHR 0xA0] @ ''ncipe''),
    (ascii ''240'', ''Equatorial Guinea''),
    (ascii ''241'', ''Gabon''),
    (ascii ''242'', ''Republic of the Congo''),
    (ascii ''243'', ''Democratic Republic of the Congo''),
    (ascii ''244'', ''Angola''),
    (ascii ''245'', ''Guinea-Bissau''),
    (ascii ''246'', ''British Indian Ocean Territory''),
    (ascii ''248'', ''Seychelles''),
    (ascii ''249'', ''Sudan''),
    (ascii ''250'', ''Rwanda''),
    (ascii ''251'', ''Ethiopia''),
    (ascii ''252'', ''Somalia''),
    (ascii ''253'', ''Djibouti''),
    (ascii ''254'', ''Kenya''),
    (ascii ''255'', ''Tanzania''),
    (ascii ''256'', ''Uganda''),
    (ascii ''257'', ''Burundi''),
    (ascii ''258'', ''Mozambique''),
    (ascii ''260'', ''Zambia''),
    (ascii ''261'', ''Madagascar''),
    (ascii ''262'', ''R'' @ [CHR 0xE2, CHR 0x88, CHR 0x9A, CHR 0xC2, CHR 0xA9] @ ''union''),
    (ascii ''263'', ''Zimbabwe''),
    (ascii ''264'', ''Namibia''),
    (ascii ''265'', ''Malawi''),
    (ascii ''266'', ''Lesotho''),
    (ascii ''267'', ''Botswana''),
    (ascii ''268'', ''Eswatini''),
    (ascii ''269'', ''Comoros''),
    (ascii ''290'', ''Saint Helena''),
    (ascii ''291'', ''Eritrea''),
    (ascii ''297'', ''Aruba''),
    (ascii ''298'', ''Faroe Islands''),
    (ascii ''299'', ''Greenland''),
    (ascii ''350'', ''Gibraltar''),
    (ascii ''351'', ''Portugal''),
    (ascii ''352'', ''Luxembourg''),
    (ascii ''353'', ''Ireland''),
    (ascii ''354'', ''Iceland''),
    (ascii ''355'', ''Albania''),
    (ascii ''356'', ''Malta''),
    (ascii ''357'', ''Cyprus''),
    (ascii ''358'', ''Finland''),
    (ascii ''359'', ''Bulgaria''),
    (ascii ''370'', ''Lithuania''),
    (ascii ''371'', ''Latvia''),
    (ascii ''372'', ''Estonia''),
    (ascii ''373'', ''Moldova''),
    (ascii ''374'', ''Armenia''),
    (ascii ''375'', ''Belarus''),
    (ascii ''376'', ''Andorra''),
    (ascii ''377'', ''Monaco''),
    (ascii ''378'', ''San Marino''),
    (ascii ''380'', ''Ukraine''),
    (ascii ''381'', ''Serbia''),
    (ascii ''382'', ''Montenegro''),
    (ascii ''383'', ''Kosovo''),
    (ascii ''385'', ''Croatia''),
    (ascii ''386'', ''Slovenia''),
    (ascii ''387'', ''Bosnia and Herzegovina''),
    (ascii ''389'', ''North Macedonia''),
    (ascii ''420'', ''Czech Republic''),
    (ascii ''421'', ''Slovakia''),
    (ascii ''423'', ''Liechtenstein''),
    (ascii ''500'', ''Falkland Islands''),
    (ascii ''501'', ''Belize''),
    (ascii ''502'', ''Guatemala''),
    (ascii ''503'', ''El Salvador''),
    (ascii ''504'', ''Honduras''),
    (ascii ''505'', ''Nicaragua''),
    (ascii ''506'', ''Costa Rica''),
    (ascii ''507'', ''Panama''),
    (ascii ''508'', ''Saint Pierre and Miquelon''),
    (ascii ''509'', ''Haiti''),
    (ascii ''590'', ''Guadeloupe''),
    (ascii ''591'', ''Bolivia''),
    (ascii ''592'', ''Guyana''),
    (ascii ''593'', ''Ecuador''),
    (ascii ''594'', ''French Guiana''),
    (ascii ''595'', ''Paraguay''),
    (ascii ''596'', ''Martinique''),
    (ascii ''597'', ''Suriname''),
    (ascii ''598'', ''Uruguay''),
    (ascii ''599'', ''Netherlands Antilles''),
    (ascii ''670'', ''East Timor''),
    (ascii ''672'', ''Australian External Territories''),
    (ascii ''673'', ''Brunei''),
    (ascii ''674'', ''Nauru''),
    (ascii ''675'', ''Papua New Guinea''),
    (ascii ''676'', ''Tonga''),
    (ascii ''677'', ''Solomon Islands''),
    (ascii ''678'', ''Vanuatu''),
    (ascii ''679'', ''Fiji''),
    (ascii ''680'', ''Palau''),
    (ascii ''681'', ''Wallis and Futuna''),
    (ascii ''682'', ''Cook Islands''),
    (ascii ''683'', ''Niue''),
    (ascii ''684'', ''American Samoa''),
    (ascii ''685'', ''Samoa''),
    (ascii ''686'', ''Kiribati''),
    (ascii ''687'', ''New Caledonia''),
    (ascii ''688'', ''Tuvalu''),
    (ascii ''689'', ''French Polynesia''),
    (ascii ''690'', ''Tokelau''),
    (ascii ''691'', ''Federated States of Micronesia''),
    (ascii ''692'', ''Marshall Islands''),
    (ascii ''850'', ''North Korea''),
    (ascii ''852'', ''Hong Kong''),
    (ascii ''853'', ''Macau''),
    (ascii ''855'', ''Cambodia''),
    (ascii ''856'', ''Laos''),
    (ascii ''880'', ''Bangladesh''),
    (ascii ''886'', ''Taiwan''),
    (ascii ''960'', ''Maldives''),
    (ascii ''961'', ''Lebanon''),
    (ascii ''962'', ''Jordan''),
    (ascii ''963'', ''Syria''),
    (ascii ''964'', ''Iraq''),
    (ascii ''965'', ''Kuwait''),
    (ascii ''966'', ''Saudi Arabia''),
    (ascii ''967'', ''Yemen''),
    (ascii ''968'', ''Oman''),
    (ascii ''970'', ''Palestine''),
    (ascii ''971'', ''United Arab Emirates''),
    (ascii ''972'', ''Israel''),
    (ascii ''973'', ''Bahrain''),
    (ascii ''974'', ''Qatar''),
    (ascii ''975'', ''Bhutan''),
    (ascii ''976'', ''Mongolia''),
    (ascii ''977'', ''Nepal''),
    (ascii ''992'', ''Tajikistan''),
    (ascii ''993'', ''Turkmenistan''),
    (ascii ''994'', ''Azerbaijan''),
    (ascii ''995'', ''Georgia''),
    (ascii ''996'', ''Kyrgyzstan''),
    (ascii ''998'', ''Uzbekistan'')]"

definition country_codes :: "ustr \<rightharpoonup> string" where
  "country_codes = map_of country_code_items"

text \<open>
  The loop \<^verbatim>\<open>for length in [3, 2, 1]\<close> of lines 510-516 over the digit string, with the
  \<^verbatim>\<open>return 'Unknown'\<close> that follows it. The dictionary is an argument, so that the order of
  the attempts can be stated for any table.
\<close>

fun try_lengths :: "(ustr \<rightharpoonup> string) \<Rightarrow> nat list \<Rightarrow> ustr \<Rightarrow> string" where
  "try_lengths codes [] phone_digits = ''Unknown''"
| "try_lengths codes (l # ls) phone_digits =
     (if length phone_digits \<ge> l then
        (case codes (take l phone_digits) of
           Some c \<Rightarrow> c
         | None \<Rightarrow> try_lengths codes ls phone_digits)
      else try_lengths codes ls phone_digits)"

text \<open>
  \<^verbatim>\<open>_country_from_phone\<close>. The guard \<^verbatim>\<open>if not phone or len(phone) < 2\<close> is on the string as
  given, before the digits are filtered. \<^verbatim>\<open>None\<close> and \<^verbatim>\<open>0\<close> are falsy and return at once; any
  other integer reaches \<^verbatim>\<open>len\<close>, which raises \<^verbatim>\<open>TypeError\<close>.
\<close>

fun country_from_phone :: "unicode \<Rightarrow> pytext \<Rightarrow> exn + string" where
  "country_from_phone ucd (PStr p) =
     (if p = [] \<or> length p < 2 then Inr ''Unknown''
      else Inr (try_lengths country_codes [3, 2, 1] (filter (isdigit ucd) p)))"
| "country_from_phone ucd PNone = Inr ''Unknown''"
| "country_from_phone ucd (PInt n) = (if n = 0 then Inr ''Unknown'' else Inl TypeError)"

subsection \<open>Last-seen status (\<^verbatim>\<open>_get_user_status\<close>, lines 518-565)\<close>

text \<open>
  \<^verbatim>\<open>datetime - datetime\<close>: a naive \<^verbatim>\<open>datetime\<close> is its number of microseconds on the
  calendar; the difference is a normalised \<^verbatim>\<open>timedelta\<close>, with \<open>0 \<le> seconds < 86400\<close> and
  \<open>0 \<le> microseconds < 1000000\<close>, the sign carried by \<open>days\<close>.
\<close>

record timedelta =
  days :: int
  seconds :: int
  microseconds :: int

definition datetime_sub :: "int \<Rightarrow> int \<Rightarrow> timedelta" where
  "datetime_sub a b =
     \<lparr>days = (a - b) div 86400000000,
      seconds = (a - b) mod 86400000000 div 1000000,
      microseconds = (a - b) mod 1000000\<rparr>"

text \<open>The chain of lines 533-544 on \<^verbatim>\<open>diff\<close>.\<close>

definition last_seen_label :: "timedelta \<Rightarrow> string" where
  "last_seen_label diff =
     (if days diff > 365 then ''Last seen: '' @ int_str (days diff div 365) @ '' year(s) ago''
      else if days diff > 30 then ''Last seen: '' @ int_str (days diff div 30) @ '' month(s) ago''
      else if days diff > 0 then ''Last seen: '' @ int_str (days diff) @ '' day(s) ago''
      else if seconds diff > 3600 then
        ''Last seen: '' @ int_str (seconds diff div 3600) @ '' hour(s) ago''
      else if seconds diff > 60 then
        ''Last seen: '' @ int_str (seconds diff div 60) @ '' minute(s) ago''
      else ''Last seen: Recently'')"

text \<open>The chain of lines 548-559 on \<^verbatim>\<open>type(status).__name__\<close>.\<close>

definition type_label :: "string \<Rightarrow> string" where
  "type_label status_type =
     (if contains ''Online'' status_type then
        [CHR 0xEF, CHR 0xA3, CHR 0xBF, CHR 0xC3, CHR 0xBC, CHR 0xC3, CHR 0xBC, CHR 0xC2, CHR 0xA2]
        @ '' Online''
      else if contains ''Recently'' status_type then
        [CHR 0xEF, CHR 0xA3, CHR 0xBF, CHR 0xC3, CHR 0xBC, CHR 0xC3, CHR 0xBC, CHR 0xC2, CHR 0xB0]
        @ '' Recently''
      else if contains ''LastWeek'' status_type then
        [CHR 0xEF, CHR 0xA3, CHR 0xBF, CHR 0xC3, CHR 0xBC, CHR 0xC3, CHR 0xBC, CHR 0xE2, CHR 0x80,
         CHR 0xA0] @ '' Within a week''
      else if contains ''LastMonth'' status_type then
        [CHR 0xEF, CHR 0xA3, CHR 0xBF, CHR 0xC3, CHR 0xBC, CHR 0xC3, CHR 0xAE, CHR 0xC2, CHR 0xA5]
        @ '' Within a month''
      else if contains ''Long'' status_type then
        [CHR 0xE2, CHR 0x80, CHR 0x9A, CHR 0xC3, CHR 0xB6, CHR 0xC2, CHR 0xB4] @ '' Long time ago''
      else ''Status: '' @ remove_all ''UserStatus'' status_type)"

text \<open>
  The attribute \<^verbatim>\<open>was_online\<close> of the status object: missing, a \<^verbatim>\<open>datetime\<close> (its naive
  fields, which is what \<^verbatim>\<open>replace(tzinfo=None)\<close> keeps), a value of another type, or a
  property whose read raises.
\<close>

datatype was_online_attr =
  NoWasOnline | WasDatetime int | WasValue pyval | WasRaises exn

text \<open>
  \<^verbatim>\<open>if hasattr(status, 'was_online')\<close> and what follows. \<^verbatim>\<open>hasattr\<close> reads the attribute: an
  \<^verbatim>\<open>AttributeError\<close> makes it false, any other exception leaves it. A value that is not a
  \<^verbatim>\<open>datetime\<close> is printed as it is.
\<close>

fun status_label :: "string \<Rightarrow> was_online_attr \<Rightarrow> int \<Rightarrow> exn + string" where
  "status_label status_type (WasDatetime last_seen) now =
     Inr (last_seen_label (datetime_sub now last_seen))"
| "status_label status_type (WasValue last_seen) now = Inr (''Last seen: '' @ py_str last_seen)"
| "status_label status_type NoWasOnline now = Inr (type_label status_type)"
| "status_label status_type (WasRaises e) now =
     (if e = AttributeError then Inr (type_label status_type) else Inl e)"

subsection \<open>The user object and the estimators on it\<close>

text \<open>\<^verbatim>\<open>user.status\<close>: the name of its type and its \<^verbatim>\<open>was_online\<close>.\<close>

record status_obj =
  type_name :: string
  was_online :: was_online_attr

text \<open>
  The attributes of \<^verbatim>\<open>user\<close> that the estimators read. \<open>uid\<close> is \<^verbatim>\<open>user.id\<close>, read without
  \<^verbatim>\<open>hasattr\<close>; the other three are guarded by \<^verbatim>\<open>hasattr\<close>.
\<close>

record user =
  uid :: pyval
  lang_code :: "pytext option"
  phone :: "pytext option"
  status :: "status_obj option"

text \<open>
  Lines 187-190: the language step gives the returned string, or \<open>None\<close> when the code falls
  through to the phone step.
\<close>

definition lang_step :: "unicode \<Rightarrow> pytext option \<Rightarrow> exn + string option" where
  "lang_step ucd a =
     (case a of
        None \<Rightarrow> Inr None
      | Some v \<Rightarrow>
          if truthy v then
            (case country_from_lang_code ucd v of
               Inl e \<Rightarrow> Inl e
             | Inr country \<Rightarrow>
                 if country \<noteq> ''Unknown'' then Inr (Some (country @ '' (from language)''))
                 else Inr None)
          else Inr None)"

text \<open>Lines 193-196: the phone step, in the same way.\<close>

definition phone_step :: "unicode \<Rightarrow> pytext option \<Rightarrow> exn + string option" where
  "phone_step ucd a =
     (case a of
        None \<Rightarrow> Inr None
      | Some v \<Rightarrow>
          if truthy v then
            (case country_from_phone ucd v of
               Inl e \<Rightarrow> Inl e
             | Inr country \<Rightarrow>
                 if country \<noteq> ''Unknown'' then Inr (Some (country @ '' (from phone)''))
                 else Inr None)
          else Inr None)"

text \<open>The body of the \<^verbatim>\<open>try\<close> of \<^verbatim>\<open>_estimate_country\<close>.\<close>

definition estimate_country_body :: "unicode \<Rightarrow> user \<Rightarrow> exn + string" where
  "estimate_country_body ucd u =
     (case lang_step ucd (lang_code u) of
        Inl e \<Rightarrow> Inl e
      | Inr (Some r) \<Rightarrow> Inr r
      | Inr None \<Rightarrow>
          (case phone_step ucd (phone u) of
             Inl e \<Rightarrow> Inl e
           | Inr (Some r) \<Rightarrow> Inr r
           | Inr None \<Rightarrow> Inr ''Unknown (Privacy Protected)''))"

definition estimate_country :: "unicode \<Rightarrow> user \<Rightarrow> world \<Rightarrow> string \<times> world" where
  "estimate_country ucd u w =
     (case estimate_country_body ucd u of
        Inr r \<Rightarrow> (r, w)
      | Inl e \<Rightarrow> (''Unknown'', logger_error ''Error estimating country'' e w))"

text \<open>The body of the \<^verbatim>\<open>try\<close> of \<^verbatim>\<open>_get_user_status\<close>; \<open>now\<close> is \<^verbatim>\<open>datetime.now()\<close>.\<close>

definition get_user_status_body :: "user \<Rightarrow> int \<Rightarrow> exn + string" where
  "get_user_status_body u now =
     (case status u of
        None \<Rightarrow> Inr ''Unknown''
      | Some st \<Rightarrow> status_label (type_name st) (was_online st) now)"

definition get_user_status :: "user \<Rightarrow> world \<Rightarrow> string \<times> world" where
  "get_user_status u w =
     (case get_user_status_body u (clock w) of
        Inr r \<Rightarrow> (r, w)
      | Inl e \<Rightarrow> (''Unknown'', logger_error ''Error getting user status'' e w))"

subsection \<open>The analysis record (\<^verbatim>\<open>get_user_info\<close>, lines 99-120)\<close>

text \<open>
  The entries of \<^verbatim>\<open>user_info\<close> that the estimators compute, and the time stamp, in the order
  in which the dictionary display evaluates them. The time stamp is the clock reading
  itself, not its ISO rendering. The other entries copy attributes that no estimator reads.
\<close>

record user_info =
  registration_date :: reg_estimate
  country :: string
  status_text :: string
  analysis_timestamp :: int

definition compile_user_info :: "unicode \<Rightarrow> user \<Rightarrow> world \<Rightarrow> user_info \<times> world" where
  "compile_user_info ucd u w0 =
     (let (r, w1) = estimate_registration_date (uid u) w0;
          (c, w2) = estimate_country ucd u w1;
          (s, w3) = get_user_status u w2
      in (\<lparr>registration_date = r, country = c, status_text = s,
           analysis_timestamp = clock w3\<rparr>, w3))"

subsection \<open>Vocabulary of the properties\<close>

text \<open>
  The date that the specification describes for an identifier \<open>n\<close>: that of the first
  calibration point, in table order, whose threshold is strictly above \<open>n\<close>, and the
  catch-all date when there is none. It is compared with the loop of the source below.
\<close>

definition first_exceeding :: "int \<Rightarrow> (int \<times> date_info) list \<Rightarrow> date_info" where
  "first_exceeding n xs =
     (case find (\<lambda>(t, d). n < t) xs of Some (t, d) \<Rightarrow> d | None \<Rightarrow> newest)"

text \<open>Calendar order on dates, and the date held by an estimate whose fields are integers.\<close>

definition date_le :: "date_info \<Rightarrow> date_info \<Rightarrow> bool" where
  "date_le a b =
     (case (a, b) of
        ((y, m, d), (y', m', d')) \<Rightarrow> y < y' \<or> (y = y' \<and> (m < m' \<or> (m = m' \<and> d \<le> d'))))"

definition date_of :: "reg_estimate \<Rightarrow> date_info option" where
  "date_of r =
     (case (year r, month r, day r) of
        (PInt y, PInt m, PInt d) \<Rightarrow> Some (y, m, d)
      | _ \<Rightarrow> None)"

text \<open>A world to run the examples in.\<close>

definition w0 :: world where
  "w0 = \<lparr>clock = 0, log = []\<rparr>"

text \<open>
  The language step falls through: the attribute is missing or falsy, or it is a tag
  that, lowercased, is not a key of \<open>lang_country_map\<close>.
\<close>

definition lang_unmatched :: "unicode \<Rightarrow> pytext option \<Rightarrow> bool" where
  "lang_unmatched ucd a =
     (case a of
        None \<Rightarrow> True
      | Some PNone \<Rightarrow> True
      | Some (PInt n) \<Rightarrow> n = 0
      | Some (PStr t) \<Rightarrow> t = [] \<or> lang_country_map (lower ucd t) = None)"

text \<open>The phone step falls through, in the same sense.\<close>

definition phone_unmatched :: "unicode \<Rightarrow> pytext option \<Rightarrow> bool" where
  "phone_unmatched ucd a =
     (case a of
        None \<Rightarrow> True
      | Some PNone \<Rightarrow> True
      | Some (PInt n) \<Rightarrow> n = 0
      | Some (PStr p) \<Rightarrow> country_from_phone ucd (PStr p) = Inr ''Unknown'')"

text \<open>
  Inputs for the examples. Unicode tables that hold two facts of Python's: the KELVIN SIGN
  (U+212A) lowercases to \<open>k\<close>, and SUPERSCRIPT TWO (U+00B2) is a digit for \<^verbatim>\<open>str.isdigit\<close>. A
  table in which a one-digit, a two-digit and a three-digit prefix of the same number are
  all keys. A user given by its language tag and its phone; a user last seen at a given
  time; a user on which each of the three estimators raises; a world with a line in its
  log.
\<close>

definition ucd0 :: unicode where
  "ucd0 =
     \<lparr>lower_beyond = (\<lambda>s. map (\<lambda>c. if c = 8490 then 107 else c) s),
      isdigit_beyond = (\<lambda>c. c = 178)\<rparr>"

definition demo_codes :: "ustr \<rightharpoonup> string" where
  "demo_codes =
     map_of [(ascii ''1'', ''one''), (ascii ''12'', ''twelve''), (ascii ''123'', ''one-two-three'')]"

definition demo_user :: "pytext option \<Rightarrow> pytext option \<Rightarrow> user" where
  "demo_user l p = \<lparr>uid = PInt 500, lang_code = l, phone = p, status = None\<rparr>"

definition offline_user :: "int \<Rightarrow> user" where
  "offline_user ts =
     \<lparr>uid = PInt 500, lang_code = None, phone = None,
      status = Some \<lparr>type_name = ''UserStatusOffline'', was_online = WasDatetime ts\<rparr>\<rparr>"

definition broken_user :: user where
  "broken_user =
     \<lparr>uid = PStr ''abc'', lang_code = Some (PInt 7),
      phone = Some (PStr (ascii ''+14155552671'')),
      status = Some \<lparr>type_name = ''UserStatusOffline'', was_online = WasRaises ValueError\<rparr>\<rparr>"

definition w1 :: world where
  "w1 = \<lparr>clock = 0, log = [(''Error estimating country'', AttributeError)]\<rparr>"

section \<open>Properties\<close>

subsection \<open>Registration date\<close>

lemma scan_ranges_int: "scan_ranges (PInt n) xs = Inr (approximate (first_exceeding n xs))"
  by (induction xs) (auto simp: first_exceeding_def)

lemma estimate_int:
  "fst (estimate_registration_date (PInt n) w) = approximate (first_exceeding n id_ranges)"
  by (simp add: estimate_registration_date_def scan_ranges_int)

lemma at_thresholds:
  "map (\<lambda>(t, d). first_exceeding t id_ranges) id_ranges = tl (map snd id_ranges) @ [newest]"
  by (simp add: id_ranges_def first_exceeding_def)

lemma approximate_tags: "estimated (approximate d) \<and> accuracy (approximate d) = ''approximate''"
  by (cases d) simp

text \<open>
  C1. For a non-negative integer identifier the estimator returns the date of the first
  calibration point, in table order, whose threshold is strictly greater than the
  identifier, with \<open>estimated = True\<close> and \<open>accuracy = approximate\<close>. An identifier below the
  smallest threshold gets the earliest date. The comparison is strict: the estimates at the
  thresholds themselves are the dates of the table shifted by one place, the last threshold
  getting the date returned after the loop.
\<close>

theorem registration_first_exceeding:
  "0 \<le> n \<Longrightarrow>
     fst (estimate_registration_date (PInt n) w) = approximate (first_exceeding n id_ranges)
     \<and> estimated (fst (estimate_registration_date (PInt n) w))
     \<and> accuracy (fst (estimate_registration_date (PInt n) w)) = ''approximate''
     \<and> (n < 1000 \<longrightarrow>
          fst (estimate_registration_date (PInt n) w) = approximate (2013, 8, 14))
     \<and> map (\<lambda>(t, d). fst (estimate_registration_date (PInt t) w)) id_ranges
         = map approximate (tl (map snd id_ranges) @ [newest])"
proof -
  have small: "n < 1000 \<Longrightarrow> first_exceeding n id_ranges = (2013, 8, 14)"
    by (simp add: first_exceeding_def id_ranges_def)
  have "map (\<lambda>(t, d). fst (estimate_registration_date (PInt t) w)) id_ranges
          = map approximate (map (\<lambda>(t, d). first_exceeding t id_ranges) id_ranges)"
    by (simp add: estimate_int case_prod_unfold)
  then show ?thesis
    by (simp add: estimate_int approximate_tags at_thresholds small del: approximate.simps)
qed

theorem registration_first_exceeding_witness:
  "(0::int) \<le> 500 \<and> (500::int) < 1000
   \<and> fst (estimate_registration_date (PInt 500) w0)
       = \<lparr>year = PInt 2013, month = PInt 8, day = PInt 14, estimated = True,
          accuracy = ''approximate''\<rparr>
   \<and> fst (estimate_registration_date (PInt 1000) w0)
       = \<lparr>year = PInt 2013, month = PInt 9, day = PInt 15, estimated = True,
          accuracy = ''approximate''\<rparr>"
  using registration_first_exceeding [of 500 w0] registration_first_exceeding [of 1000 w0]
  by (simp add: first_exceeding_def id_ranges_def)

lemma date_le_refl: "date_le a a"
  by (cases a) (simp add: date_le_def)

lemma first_exceeding_in: "first_exceeding n xs \<in> set (map snd xs @ [newest])"
  by (induction xs) (auto simp: first_exceeding_def)

text \<open>
  A later identifier never finds an earlier entry of the table, so dates that do not
  decrease along the table (the catch-all included) make the estimate monotone.
\<close>

lemma first_exceeding_mono:
  "a \<le> b \<Longrightarrow> sorted_wrt date_le (map snd xs @ [newest]) \<Longrightarrow>
     date_le (first_exceeding a xs) (first_exceeding b xs)"
proof (induction xs)
  case Nil
  then show ?case by (simp add: first_exceeding_def date_le_refl)
next
  case (Cons x xs)
  obtain t d where x: "x = (t, d)" by (cases x)
  show ?case
  proof (cases "a < t")
    case a: True
    show ?thesis
    proof (cases "b < t")
      case True
      with a show ?thesis by (simp add: x first_exceeding_def date_le_refl)
    next
      case False
      then have "first_exceeding b (x # xs) = first_exceeding b xs"
        by (simp add: x first_exceeding_def)
      moreover have "first_exceeding a (x # xs) = d"
        using a by (simp add: x first_exceeding_def)
      moreover have "date_le d (first_exceeding b xs)"
        using Cons.prems(2) first_exceeding_in [of b xs] by (auto simp: x)
      ultimately show ?thesis by simp
    qed
  next
    case False
    with Cons.prems(1) have "\<not> b < t" by simp
    with False Cons show ?thesis by (simp add: x first_exceeding_def)
  qed
qed

lemma dates_sorted: "sorted_wrt date_le (map snd id_ranges @ [newest])"
  by (simp add: id_ranges_def newest_def date_le_def)

lemma thresholds_sorted: "sorted_wrt (<) (map fst id_ranges)"
  by (simp add: id_ranges_def)

lemma date_of_approximate: "date_of (approximate d) = Some d"
  by (cases d) (simp add: date_of_def)

lemma date_le_year: "date_le a b \<Longrightarrow> fst a \<le> fst b"
  by (cases a; cases b) (auto simp: date_le_def)

text \<open>
  C2. For integer identifiers \<open>a < b\<close> the date estimated for \<open>a\<close> is on or before the date
  estimated for \<open>b\<close>, and so is the year. The two facts about the table that the claim rests
  on hold: the thresholds are strictly ascending, and the dates, followed by the catch-all
  date, do not decrease.
\<close>

theorem registration_date_monotone:
  "a < b \<Longrightarrow>
     (\<exists>da db. date_of (fst (estimate_registration_date (PInt a) w)) = Some da
        \<and> date_of (fst (estimate_registration_date (PInt b) w')) = Some db
        \<and> date_le da db \<and> fst da \<le> fst db)
     \<and> sorted_wrt (<) (map fst id_ranges)
     \<and> sorted_wrt date_le (map snd id_ranges @ [newest])"
proof -
  assume "a < b"
  then have le: "date_le (first_exceeding a id_ranges) (first_exceeding b id_ranges)"
    by (intro first_exceeding_mono dates_sorted) simp
  show ?thesis
    using le date_le_year [OF le]
    by (simp add: estimate_int date_of_approximate dates_sorted thresholds_sorted)
qed

theorem registration_date_monotone_witness:
  "(999::int) < 1000
   \<and> date_of (fst (estimate_registration_date (PInt 999) w0)) = Some (2013, 8, 14)
   \<and> date_of (fst (estimate_registration_date (PInt 1000) w0)) = Some (2013, 9, 15)
   \<and> date_le (2013, 8, 14) (2013, 9, 15)"
proof -
  have h: "(999::int) < 1000" by simp
  have a: "date_of (fst (estimate_registration_date (PInt 999) w0)) = Some (2013, 8, 14)"
    by (simp add: estimate_int date_of_def first_exceeding_def id_ranges_def)
  have b: "date_of (fst (estimate_registration_date (PInt 1000) w0)) = Some (2013, 9, 15)"
    by (simp add: estimate_int date_of_def first_exceeding_def id_ranges_def)
  have "date_le (2013, 8, 14) (2013, 9, 15)"
    using registration_date_monotone [OF h, of w0 w0] by (auto simp: a b)
  with h a b show ?thesis by simp
qed

lemma first_exceeding_newest:
  "\<forall>t \<in> set (map fst xs). t \<le> n \<Longrightarrow> first_exceeding n xs = newest"
  by (induction xs) (auto simp: first_exceeding_def)

text \<open>
  C5. An identifier that is greater than or equal to every threshold of the table gets the
  fixed date 2024-06-01, tagged like a bucket hit: \<open>estimated = True\<close> and
  \<open>accuracy = approximate\<close>.
\<close>

theorem registration_catch_all:
  "\<forall>t \<in> set (map fst id_ranges). t \<le> n \<Longrightarrow>
     fst (estimate_registration_date (PInt n) w)
       = \<lparr>year = PInt 2024, month = PInt 6, day = PInt 1, estimated = True,
          accuracy = ''approximate''\<rparr>"
  by (simp add: estimate_int first_exceeding_newest newest_def)

theorem registration_catch_all_witness:
  "list_all (\<lambda>t. t \<le> 3000000000) (map fst id_ranges)
   \<and> fst (estimate_registration_date (PInt 3000000000) w0)
       = \<lparr>year = PInt 2024, month = PInt 6, day = PInt 1, estimated = True,
          accuracy = ''approximate''\<rparr>"
proof -
  have l: "list_all (\<lambda>t. t \<le> 3000000000) (map fst id_ranges)"
    by (simp add: id_ranges_def)
  then have h: "\<forall>t \<in> set (map fst id_ranges). t \<le> 3000000000"
    by (simp only: list_all_iff)
  from registration_catch_all [OF h, of w0] l show ?thesis by simp
qed

lemma scan_ranges_estimated: "scan_ranges v xs = Inr r \<Longrightarrow> estimated r"
  by (induction xs) (auto split: sum.splits bool.splits simp: approximate_tags)

lemma scan_id_ranges_not_int:
  "scan_ranges PNone id_ranges = Inl TypeError" "scan_ranges (PStr s) id_ranges = Inl TypeError"
  by (simp_all add: id_ranges_def)

text \<open>
  C10. Whatever the identifier is, the returned estimate has \<open>estimated = True\<close>. This
  includes the handler: an identifier that is \<^verbatim>\<open>None\<close> or a string makes the comparison
  raise, and the result is then the dictionary with \<open>'Unknown'\<close> in the three date fields,
  \<open>estimated = True\<close> and \<open>accuracy = failed\<close>.
\<close>

theorem registration_always_estimated:
  "estimated (fst (estimate_registration_date v w))
   \<and> fst (estimate_registration_date PNone w)
       = \<lparr>year = PStr ''Unknown'', month = PStr ''Unknown'', day = PStr ''Unknown'',
          estimated = True, accuracy = ''failed''\<rparr>
   \<and> fst (estimate_registration_date (PStr s) w)
       = \<lparr>year = PStr ''Unknown'', month = PStr ''Unknown'', day = PStr ''Unknown'',
          estimated = True, accuracy = ''failed''\<rparr>"
proof -
  have "estimated (fst (estimate_registration_date v w))"
    by (auto simp: estimate_registration_date_def failed_estimate_def
          split: sum.splits dest: scan_ranges_estimated)
  then show ?thesis
    by (simp add: estimate_registration_date_def scan_id_ranges_not_int failed_estimate_def)
qed

subsection \<open>Country\<close>

lemma country_from_phone_str:
  "country_from_phone ucd (PStr p) =
     (if length p < 2 then Inr ''Unknown''
      else Inr (try_lengths country_codes [3, 2, 1] (filter (isdigit ucd) p)))"
  by auto

declare country_from_phone.simps(1) [simp del]

lemma map_of_value: "map_of xs k = Some c \<Longrightarrow> list_all (\<lambda>(k, v). P v) xs \<Longrightarrow> P c"
  by (auto dest!: map_of_SomeD simp: list_all_iff)

lemma lang_items_known: "list_all (\<lambda>(k, v). v \<noteq> ''Unknown'') lang_country_items"
  by code_simp

lemma lang_value_known: "lang_country_map k = Some c \<Longrightarrow> c \<noteq> ''Unknown''"
  unfolding lang_country_map_def by (erule map_of_value) (rule lang_items_known)

lemma suffix_differs: "c @ '' (from language)'' \<noteq> x @ '' (from phone)''"
proof
  assume "c @ '' (from language)'' = x @ '' (from phone)''"
  then have "take 3 (rev (c @ '' (from language)'')) = take 3 (rev (x @ '' (from phone)''))"
    by simp
  then show False by simp
qed

lemma unknown_not_phone: "''Unknown'' \<noteq> x @ '' (from phone)''"
proof
  assume "''Unknown'' = x @ '' (from phone)''"
  then have "take 1 (rev ''Unknown'') = take 1 (rev (x @ '' (from phone)''))"
    by simp
  then show False by simp
qed

lemma lang_step_known:
  "t \<noteq> [] \<Longrightarrow> lang_country_map (lower ucd t) = Some c \<Longrightarrow>
     lang_step ucd (Some (PStr t)) = Inr (Some (c @ '' (from language)''))"
  by (simp add: lang_step_def lang_value_known)

lemma lang_step_unmatched: "lang_unmatched ucd a \<Longrightarrow> lang_step ucd a = Inr None"
  by (auto simp: lang_unmatched_def lang_step_def split: option.splits val.splits)

lemma phone_step_unmatched: "phone_unmatched ucd a \<Longrightarrow> phone_step ucd a = Inr None"
  by (auto simp: phone_unmatched_def phone_step_def split: option.splits val.splits)

lemma phone_step_known:
  "country_from_phone ucd (PStr p) = Inr c \<Longrightarrow> c \<noteq> ''Unknown'' \<Longrightarrow>
     phone_step ucd (Some (PStr p)) = Inr (Some (c @ '' (from phone)''))"
  by (cases "p = []") (auto simp: phone_step_def country_from_phone_str)

lemma lang_step_cases:
  "lang_unmatched ucd a \<or> (\<exists>n. a = Some (PInt n) \<and> n \<noteq> 0 \<and> lang_step ucd a = Inl AttributeError)
   \<or> (\<exists>t c. a = Some (PStr t) \<and> t \<noteq> [] \<and> lang_country_map (lower ucd t) = Some c)"
  by (auto simp: lang_unmatched_def lang_step_def split: option.splits val.splits)

lemma estimate_country_cong:
  "lang_code u = lang_code u' \<Longrightarrow> phone_step ucd (phone u) = phone_step ucd (phone u') \<Longrightarrow>
     fst (estimate_country ucd u w) = fst (estimate_country ucd u' w')"
  by (simp add: estimate_country_def estimate_country_body_def split: sum.splits option.splits)

text \<open>
  C3. The language step comes first. A language tag that is present and, lowercased, is a
  key of the language table gives the label of the table followed by \<open>(from language)\<close>,
  whatever the phone attribute is: it is not consulted. When the language step falls
  through, a phone that the phone lookup resolves gives its label followed by
  \<open>(from phone)\<close>; when both fall through the result is \<open>Unknown (Privacy Protected)\<close>.
  A result of the form \<open>x (from phone)\<close> occurs only when the language step fell through.
  This holds for every tag and phone, ASCII or not, and whatever Python's tables say beyond
  ASCII.
\<close>

theorem country_precedence:
  "(lang_code u = Some (PStr t) \<and> t \<noteq> [] \<and> lang_country_map (lower ucd t) = Some c
      \<longrightarrow> fst (estimate_country ucd u w) = c @ '' (from language)'')
   \<and> (lang_unmatched ucd (lang_code u) \<and> phone u = Some (PStr p)
        \<and> country_from_phone ucd (PStr p) = Inr c' \<and> c' \<noteq> ''Unknown''
      \<longrightarrow> fst (estimate_country ucd u w) = c' @ '' (from phone)'')
   \<and> (lang_unmatched ucd (lang_code u) \<and> phone_unmatched ucd (phone u)
      \<longrightarrow> fst (estimate_country ucd u w) = ''Unknown (Privacy Protected)'')
   \<and> (fst (estimate_country ucd u w) = x @ '' (from phone)'' \<longrightarrow> lang_unmatched ucd (lang_code u))"
proof (intro conjI impI)
  assume "lang_code u = Some (PStr t) \<and> t \<noteq> [] \<and> lang_country_map (lower ucd t) = Some c"
  then show "fst (estimate_country ucd u w) = c @ '' (from language)''"
    by (simp add: estimate_country_def estimate_country_body_def lang_step_known)
next
  assume "lang_unmatched ucd (lang_code u) \<and> phone u = Some (PStr p)
        \<and> country_from_phone ucd (PStr p) = Inr c' \<and> c' \<noteq> ''Unknown''"
  then show "fst (estimate_country ucd u w) = c' @ '' (from phone)''"
    by (simp add: estimate_country_def estimate_country_body_def lang_step_unmatched
          phone_step_known)
next
  assume "lang_unmatched ucd (lang_code u) \<and> phone_unmatched ucd (phone u)"
  then show "fst (estimate_country ucd u w) = ''Unknown (Privacy Protected)''"
    by (simp add: estimate_country_def estimate_country_body_def lang_step_unmatched
          phone_step_unmatched)
next
  assume r: "fst (estimate_country ucd u w) = x @ '' (from phone)''"
  show "lang_unmatched ucd (lang_code u)"
  proof (rule ccontr)
    assume n: "\<not> lang_unmatched ucd (lang_code u)"
    from lang_step_cases [of ucd "lang_code u"] n
    consider (raise) "lang_step ucd (lang_code u) = Inl AttributeError"
      | (known) t c where "lang_code u = Some (PStr t)" "t \<noteq> []"
          "lang_country_map (lower ucd t) = Some c"
      by blast
    then show False
    proof cases
      case raise
      then have "fst (estimate_country ucd u w) = ''Unknown''"
        by (simp add: estimate_country_def estimate_country_body_def)
      with r show False using unknown_not_phone [of x] by simp
    next
      case known
      then have "fst (estimate_country ucd u w) = c @ '' (from language)''"
        by (simp add: estimate_country_def estimate_country_body_def lang_step_known)
      with r show False using suffix_differs [of c x] by simp
    qed
  qed
qed

theorem country_precedence_witness:
  "(lang_code (demo_user (Some (PStr (ascii ''EN''))) (Some (PStr (ascii ''+14155552671''))))
       = Some (PStr (ascii ''EN''))
     \<and> ascii ''EN'' \<noteq> []
     \<and> lang_country_map (lower ucd0 (ascii ''EN'')) = Some ''English Speaking Region'')
   \<and> fst (estimate_country ucd0
            (demo_user (Some (PStr (ascii ''EN''))) (Some (PStr (ascii ''+14155552671'')))) w0)
       = ''English Speaking Region'' @ '' (from language)''
   \<and> (lang_code (demo_user (Some (PStr [8490, 107])) (Some (PStr (ascii ''+14155552671''))))
         = Some (PStr [8490, 107])
       \<and> [8490, 107] \<noteq> ([] :: ustr)
       \<and> lang_country_map (lower ucd0 [8490, 107]) = Some ''Kazakhstan'')
   \<and> fst (estimate_country ucd0
            (demo_user (Some (PStr [8490, 107])) (Some (PStr (ascii ''+14155552671'')))) w0)
       = ''Kazakhstan'' @ '' (from language)''
   \<and> (lang_unmatched ucd0
         (lang_code (demo_user (Some (PStr (ascii ''xx''))) (Some (PStr (ascii ''+14155552671'')))))
       \<and> phone (demo_user (Some (PStr (ascii ''xx''))) (Some (PStr (ascii ''+14155552671''))))
           = Some (PStr (ascii ''+14155552671''))
       \<and> country_from_phone ucd0 (PStr (ascii ''+14155552671'')) = Inr ''USA/Canada''
       \<and> ''USA/Canada'' \<noteq> ''Unknown'')
   \<and> fst (estimate_country ucd0
            (demo_user (Some (PStr (ascii ''xx''))) (Some (PStr (ascii ''+14155552671'')))) w0)
       = ''USA/Canada'' @ '' (from phone)''
   \<and> (lang_unmatched ucd0 (lang_code (demo_user None None))
       \<and> phone_unmatched ucd0 (phone (demo_user None None)))
   \<and> fst (estimate_country ucd0 (demo_user None None) w0) = ''Unknown (Privacy Protected)''"
proof -
  have a: "lang_code (demo_user (Some (PStr (ascii ''EN''))) (Some (PStr (ascii ''+14155552671''))))
       = Some (PStr (ascii ''EN''))
     \<and> ascii ''EN'' \<noteq> []
     \<and> lang_country_map (lower ucd0 (ascii ''EN'')) = Some ''English Speaking Region''"
    by code_simp
  have k: "lang_code (demo_user (Some (PStr [8490, 107])) (Some (PStr (ascii ''+14155552671''))))
         = Some (PStr [8490, 107])
       \<and> [8490, 107] \<noteq> ([] :: ustr)
       \<and> lang_country_map (lower ucd0 [8490, 107]) = Some ''Kazakhstan''"
    by code_simp
  have b: "lang_unmatched ucd0
         (lang_code (demo_user (Some (PStr (ascii ''xx''))) (Some (PStr (ascii ''+14155552671'')))))
       \<and> phone (demo_user (Some (PStr (ascii ''xx''))) (Some (PStr (ascii ''+14155552671''))))
           = Some (PStr (ascii ''+14155552671''))
       \<and> country_from_phone ucd0 (PStr (ascii ''+14155552671'')) = Inr ''USA/Canada''
       \<and> ''USA/Canada'' \<noteq> ''Unknown''"
    by code_simp
  have c: "lang_unmatched ucd0 (lang_code (demo_user None None))
       \<and> phone_unmatched ucd0 (phone (demo_user None None))"
    by code_simp
  note r1 = country_precedence
         [where u = "demo_user (Some (PStr (ascii ''EN''))) (Some (PStr (ascii ''+14155552671'')))"
            and t = "ascii ''EN''" and ucd = ucd0 and c = "''English Speaking Region''"
            and w = w0,
          THEN conjunct1, THEN mp, OF a]
  note rk = country_precedence
         [where u = "demo_user (Some (PStr [8490, 107])) (Some (PStr (ascii ''+14155552671'')))"
            and t = "[8490, 107]" and ucd = ucd0 and c = "''Kazakhstan''" and w = w0,
          THEN conjunct1, THEN mp, OF k]
  note r2 = country_precedence
         [where u = "demo_user (Some (PStr (ascii ''xx''))) (Some (PStr (ascii ''+14155552671'')))"
            and ucd = ucd0 and p = "ascii ''+14155552671''" and c' = "''USA/Canada''"
            and w = w0,
          THEN conjunct2, THEN conjunct1, THEN mp, OF b]
  note r3 = country_precedence
         [where u = "demo_user None None" and ucd = ucd0 and w = w0,
          THEN conjunct2, THEN conjunct2, THEN conjunct1, THEN mp, OF c]
  show ?thesis
    by (intro conjI a r1 k rk b r2 c r3)
qed

lemma try_lengths_321:
  "try_lengths codes [3, 2, 1] ds =
     (case (if 3 \<le> length ds then codes (take 3 ds) else None) of
        Some c \<Rightarrow> c
      | None \<Rightarrow>
         (case (if 2 \<le> length ds then codes (take 2 ds) else None) of
            Some c \<Rightarrow> c
          | None \<Rightarrow>
             (case (if 1 \<le> length ds then codes (take 1 ds) else None) of
                Some c \<Rightarrow> c
              | None \<Rightarrow> ''Unknown'')))"
  by (simp split: option.splits)

lemma phone_guard:
  "2 \<le> length p \<Longrightarrow>
     country_from_phone ucd (PStr p) = Inr (try_lengths country_codes [3, 2, 1] (filter (isdigit ucd) p))"
  by (simp add: country_from_phone_str)

lemma filter_length_le: "3 \<le> length (filter P p) \<Longrightarrow> 2 \<le> length p"
  using length_filter_le [of P p] by linarith

lemma estimate_country_demo:
  "fst (estimate_country ucd \<lparr>uid = i, lang_code = l, phone = p, status = st\<rparr> w)
     = fst (estimate_country ucd (demo_user l p) w0)"
  by (intro estimate_country_cong) (simp_all add: demo_user_def)

lemma demo_xx_usa:
  "fst (estimate_country ucd
          (demo_user (Some (PStr (ascii ''xx''))) (Some (PStr (ascii ''+14155552671'')))) w0)
     = ''USA/Canada (from phone)''"
  by code_simp

text \<open>
  C4. The loop over the lengths 3, 2, 1 returns the entry of the first length, in that
  order, at which the prefix of the digit string is a key of the table: for any table, a
  digit string whose prefixes of length 1, 2 and 3 are all keys gets the entry of the
  three-digit prefix. \<open>country_from_phone\<close> runs this loop on the characters of the phone
  that \<^verbatim>\<open>str.isdigit\<close> accepts, when the phone has at least two characters; so a phone
  whose first three such characters are a key of \<open>country_codes\<close> gets that entry. With the
  unrecognised language tag \<open>xx\<close> the phone \<open>+14155552671\<close> gives \<open>USA/Canada (from phone)\<close>,
  through the one-digit prefix.
\<close>

theorem phone_longest_prefix_first:
  "(3 \<le> length ds \<and> codes (take 1 ds) = Some c1 \<and> codes (take 2 ds) = Some c2
      \<and> codes (take 3 ds) = Some c3
      \<longrightarrow> try_lengths codes [3, 2, 1] ds = c3)
   \<and> try_lengths codes [3, 2, 1] ds =
       (case (if 3 \<le> length ds then codes (take 3 ds) else None) of
          Some c \<Rightarrow> c
        | None \<Rightarrow>
           (case (if 2 \<le> length ds then codes (take 2 ds) else None) of
              Some c \<Rightarrow> c
            | None \<Rightarrow>
               (case (if 1 \<le> length ds then codes (take 1 ds) else None) of
                  Some c \<Rightarrow> c
                | None \<Rightarrow> ''Unknown'')))
   \<and> (2 \<le> length p \<longrightarrow>
        country_from_phone ucd (PStr p)
          = Inr (try_lengths country_codes [3, 2, 1] (filter (isdigit ucd) p)))
   \<and> (3 \<le> length (filter (isdigit ucd) p) \<and> country_codes (take 3 (filter (isdigit ucd) p)) = Some c
        \<longrightarrow> country_from_phone ucd (PStr p) = Inr c)
   \<and> fst (estimate_country ucd
            \<lparr>uid = i, lang_code = Some (PStr (ascii ''xx'')),
             phone = Some (PStr (ascii ''+14155552671'')),
             status = st\<rparr> w) = ''USA/Canada (from phone)''"
proof -
  have c1: "3 \<le> length ds \<and> codes (take 1 ds) = Some c1 \<and> codes (take 2 ds) = Some c2
      \<and> codes (take 3 ds) = Some c3
      \<longrightarrow> try_lengths codes [3, 2, 1] ds = c3"
    by simp
  have c3: "2 \<le> length p \<longrightarrow>
        country_from_phone ucd (PStr p)
          = Inr (try_lengths country_codes [3, 2, 1] (filter (isdigit ucd) p))"
    by (simp add: phone_guard)
  have c4: "3 \<le> length (filter (isdigit ucd) p) \<and> country_codes (take 3 (filter (isdigit ucd) p)) = Some c
        \<longrightarrow> country_from_phone ucd (PStr p) = Inr c"
    using filter_length_le [of "isdigit ucd" p] by (auto simp: phone_guard)
  have c5: "fst (estimate_country ucd
            \<lparr>uid = i, lang_code = Some (PStr (ascii ''xx'')),
             phone = Some (PStr (ascii ''+14155552671'')),
             status = st\<rparr> w) = ''USA/Canada (from phone)''"
    by (simp only: estimate_country_demo demo_xx_usa)
  show ?thesis
    by (intro conjI c1 try_lengths_321 c3 c4 c5)
qed

theorem phone_longest_prefix_first_witness:
  "(3 \<le> length (ascii ''1234'') \<and> demo_codes (take 1 (ascii ''1234'')) = Some ''one''
     \<and> demo_codes (take 2 (ascii ''1234'')) = Some ''twelve''
     \<and> demo_codes (take 3 (ascii ''1234'')) = Some ''one-two-three'')
   \<and> try_lengths demo_codes [3, 2, 1] (ascii ''1234'') = ''one-two-three''
   \<and> (3 \<le> length (filter (isdigit ucd0) (ascii ''+380 (44) 123-45-67''))
       \<and> country_codes (take 3 (filter (isdigit ucd0) (ascii ''+380 (44) 123-45-67'')))
           = Some ''Ukraine'')
   \<and> country_from_phone ucd0 (PStr (ascii ''+380 (44) 123-45-67'')) = Inr ''Ukraine''
   \<and> 2 \<le> length (ascii ''3'' @ [178] @ ascii ''80'')
   \<and> filter (isdigit ucd0) (ascii ''3'' @ [178] @ ascii ''80'') = ascii ''3'' @ [178] @ ascii ''80''
   \<and> country_from_phone ucd0 (PStr (ascii ''3'' @ [178] @ ascii ''80'')) = Inr ''Unknown''"
proof -
  have a: "3 \<le> length (ascii ''1234'') \<and> demo_codes (take 1 (ascii ''1234'')) = Some ''one''
     \<and> demo_codes (take 2 (ascii ''1234'')) = Some ''twelve''
     \<and> demo_codes (take 3 (ascii ''1234'')) = Some ''one-two-three''"
    by code_simp
  have b: "3 \<le> length (filter (isdigit ucd0) (ascii ''+380 (44) 123-45-67''))
       \<and> country_codes (take 3 (filter (isdigit ucd0) (ascii ''+380 (44) 123-45-67'')))
           = Some ''Ukraine''"
    by code_simp
  have g: "2 \<le> length (ascii ''3'' @ [178] @ ascii ''80'')"
    by code_simp
  have f: "filter (isdigit ucd0) (ascii ''3'' @ [178] @ ascii ''80'')
             = ascii ''3'' @ [178] @ ascii ''80''"
    by code_simp
  have e: "try_lengths country_codes [3, 2, 1]
             (filter (isdigit ucd0) (ascii ''3'' @ [178] @ ascii ''80'')) = ''Unknown''"
    by code_simp
  note r1 = phone_longest_prefix_first
         [where ds = "ascii ''1234''" and codes = demo_codes and ?c1.0 = "''one''"
            and ?c2.0 = "''twelve''" and ?c3.0 = "''one-two-three''",
          THEN conjunct1, THEN mp, OF a]
  note r4 = phone_longest_prefix_first
         [where p = "ascii ''+380 (44) 123-45-67''" and ucd = ucd0 and c = "''Ukraine''",
          THEN conjunct2, THEN conjunct2, THEN conjunct2, THEN conjunct1, THEN mp, OF b]
  note r3 = phone_longest_prefix_first
         [where p = "ascii ''3'' @ [178] @ ascii ''80''" and ucd = ucd0,
          THEN conjunct2, THEN conjunct2, THEN conjunct1, THEN mp, OF g]
  have u: "country_from_phone ucd0 (PStr (ascii ''3'' @ [178] @ ascii ''80'')) = Inr ''Unknown''"
    by (simp only: r3 e)
  show ?thesis
    by (intro conjI a r1 b r4 g f u)
qed

text \<open>
  C8, as stated, fails: the guard of \<open>country_from_phone\<close> measures the phone before the
  digits are filtered, so the one-character phone \<open>1\<close> is rejected while \<open>+1\<close>, which
  has the same digits, is resolved through the prefix \<open>1\<close>.
\<close>

theorem phone_same_digits_counterexample:
  "ascii ''1'' \<noteq> [] \<and> ascii ''+1'' \<noteq> []
   \<and> filter (isdigit ucd0) (ascii ''1'') = filter (isdigit ucd0) (ascii ''+1'')
   \<and> country_from_phone ucd0 (PStr (ascii ''1'')) = Inr ''Unknown''
   \<and> country_from_phone ucd0 (PStr (ascii ''+1'')) = Inr ''USA/Canada''
   \<and> country_from_phone ucd0 (PStr (ascii ''1'')) \<noteq> country_from_phone ucd0 (PStr (ascii ''+1''))
   \<and> fst (estimate_country ucd0 (demo_user None (Some (PStr (ascii ''1'')))) w0)
       = ''Unknown (Privacy Protected)''
   \<and> fst (estimate_country ucd0 (demo_user None (Some (PStr (ascii ''+1'')))) w0)
       = ''USA/Canada (from phone)''"
  by code_simp

text \<open>
  C8, amended. Two phone strings of at least two characters each that have the same digits
  (the characters that \<^verbatim>\<open>str.isdigit\<close> accepts) in the same order get the same result from
  \<open>country_from_phone\<close>, and the same country estimate for the same user otherwise. A phone
  string of fewer than two characters gets \<open>Unknown\<close> from \<open>country_from_phone\<close> whatever
  its digits, so the phone step falls through, and with no language match the estimate is
  \<open>Unknown (Privacy Protected)\<close>.
\<close>

theorem phone_same_digits:
  "(2 \<le> length p \<and> 2 \<le> length q \<and> filter (isdigit ucd) p = filter (isdigit ucd) q \<longrightarrow>
      country_from_phone ucd (PStr p) = country_from_phone ucd (PStr q)
      \<and> fst (estimate_country ucd (u\<lparr>phone := Some (PStr p)\<rparr>) w)
          = fst (estimate_country ucd (u\<lparr>phone := Some (PStr q)\<rparr>) w))
   \<and> (length s < 2 \<longrightarrow>
        country_from_phone ucd (PStr s) = Inr ''Unknown''
        \<and> phone_unmatched ucd (Some (PStr s)))
   \<and> (length s < 2 \<and> lang_unmatched ucd (lang_code u) \<longrightarrow>
        fst (estimate_country ucd (u\<lparr>phone := Some (PStr s)\<rparr>) w)
          = ''Unknown (Privacy Protected)'')"
proof (intro conjI impI)
  assume a: "2 \<le> length p \<and> 2 \<le> length q \<and> filter (isdigit ucd) p = filter (isdigit ucd) q"
  then show e: "country_from_phone ucd (PStr p) = country_from_phone ucd (PStr q)"
    by (simp add: phone_guard)
  from a have "p \<noteq> []" "q \<noteq> []" by auto
  then have "phone_step ucd (Some (PStr p)) = phone_step ucd (Some (PStr q))"
    by (simp add: phone_step_def e)
  then show "fst (estimate_country ucd (u\<lparr>phone := Some (PStr p)\<rparr>) w)
         = fst (estimate_country ucd (u\<lparr>phone := Some (PStr q)\<rparr>) w)"
    by (intro estimate_country_cong) simp_all
next
  assume "length s < 2"
  then show "country_from_phone ucd (PStr s) = Inr ''Unknown''"
    by (simp add: country_from_phone_str)
next
  assume "length s < 2"
  then show "phone_unmatched ucd (Some (PStr s))"
    by (simp add: phone_unmatched_def country_from_phone_str)
next
  assume a: "length s < 2 \<and> lang_unmatched ucd (lang_code u)"
  then have "phone_unmatched ucd (Some (PStr s))"
    by (simp add: phone_unmatched_def country_from_phone_str)
  with a show "fst (estimate_country ucd (u\<lparr>phone := Some (PStr s)\<rparr>) w)
          = ''Unknown (Privacy Protected)''"
    by (simp add: estimate_country_def estimate_country_body_def lang_step_unmatched
          phone_step_unmatched)
qed

theorem phone_same_digits_witness:
  "(2 \<le> length (ascii ''+1 (415) 555-2671'') \<and> 2 \<le> length (ascii ''1-415-555-2671'')
     \<and> filter (isdigit ucd0) (ascii ''+1 (415) 555-2671'')
         = filter (isdigit ucd0) (ascii ''1-415-555-2671''))
   \<and> country_from_phone ucd0 (PStr (ascii ''+1 (415) 555-2671'')) = Inr ''USA/Canada''
   \<and> country_from_phone ucd0 (PStr (ascii ''1-415-555-2671'')) = Inr ''USA/Canada''
   \<and> length (ascii ''7'') < 2
   \<and> country_codes (ascii ''7'') = Some ''Russia/Kazakhstan''
   \<and> country_from_phone ucd0 (PStr (ascii ''7'')) = Inr ''Unknown''
   \<and> (length (ascii ''7'') < 2 \<and> lang_unmatched ucd0 (lang_code (demo_user None None)))
   \<and> fst (estimate_country ucd0 ((demo_user None None)\<lparr>phone := Some (PStr (ascii ''7''))\<rparr>) w0)
       = ''Unknown (Privacy Protected)''"
proof -
  have a: "2 \<le> length (ascii ''+1 (415) 555-2671'') \<and> 2 \<le> length (ascii ''1-415-555-2671'')
     \<and> filter (isdigit ucd0) (ascii ''+1 (415) 555-2671'')
         = filter (isdigit ucd0) (ascii ''1-415-555-2671'')"
    by code_simp
  have c: "country_from_phone ucd0 (PStr (ascii ''+1 (415) 555-2671'')) = Inr ''USA/Canada''"
    by code_simp
  have l: "length (ascii ''7'') < 2"
    by code_simp
  have k: "country_codes (ascii ''7'') = Some ''Russia/Kazakhstan''"
    by code_simp
  have m: "length (ascii ''7'') < 2 \<and> lang_unmatched ucd0 (lang_code (demo_user None None))"
    by code_simp
  note r = phone_same_digits
         [where p = "ascii ''+1 (415) 555-2671''" and q = "ascii ''1-415-555-2671''"
            and ucd = ucd0 and u = "demo_user None None" and w = w0,
          THEN conjunct1, THEN mp, OF a, THEN conjunct1]
  from c have d: "country_from_phone ucd0 (PStr (ascii ''1-415-555-2671'')) = Inr ''USA/Canada''"
    by (simp only: r)
  note s1 = phone_same_digits
         [where s = "ascii ''7''" and ucd = ucd0,
          THEN conjunct2, THEN conjunct1, THEN mp, OF l, THEN conjunct1]
  note s2 = phone_same_digits
         [where s = "ascii ''7''" and ucd = ucd0 and u = "demo_user None None" and w = w0,
          THEN conjunct2, THEN conjunct2, THEN mp, OF m]
  show ?thesis
    by (intro conjI a c d l k s1 m s2)
qed

subsection \<open>Last-seen status\<close>

lemma get_user_status_datetime:
  "status u = Some st \<Longrightarrow> was_online st = WasDatetime ts \<Longrightarrow>
     fst (get_user_status u w) = last_seen_label (datetime_sub (clock w) ts)"
  by (simp add: get_user_status_def get_user_status_body_def)

lemma int_str_1: "int_str 1 = ''1''" by code_simp

lemma int_str_40: "int_str 40 = ''40''" by code_simp

lemma label_400_days:
  "a - b = 400 * 86400000000 \<Longrightarrow>
     last_seen_label (datetime_sub a b) = ''Last seen: 1 year(s) ago''"
  by (simp add: last_seen_label_def datetime_sub_def int_str_1)

lemma label_40_minutes:
  "a - b = 40 * 60 * 1000000 \<Longrightarrow>
     last_seen_label (datetime_sub a b) = ''Last seen: 40 minute(s) ago''"
  by (simp add: last_seen_label_def datetime_sub_def int_str_40)

text \<open>
  C6. For a status whose \<open>was_online\<close> is a \<^verbatim>\<open>datetime\<close>, with \<open>d\<close> the whole days of
  \<open>now - was_online\<close> (floor division) and \<open>s\<close> the seconds of the remainder, the label is
  chosen by the first rule that applies: \<open>d > 365\<close> gives \<open>d div 365\<close> years, \<open>d > 30\<close>
  gives \<open>d div 30\<close> months, \<open>d > 0\<close> gives \<open>d\<close> days, \<open>s > 3600\<close> gives \<open>s div 3600\<close> hours,
  \<open>s > 60\<close> gives \<open>s div 60\<close> minutes, and otherwise the label is \<open>Last seen: Recently\<close>. A
  time 400 days before now gives \<open>Last seen: 1 year(s) ago\<close>, one 40 minutes before now
  gives \<open>Last seen: 40 minute(s) ago\<close>.
\<close>

theorem last_seen_classification:
  "status u = Some st \<Longrightarrow> was_online st = WasDatetime ts \<Longrightarrow>
     fst (get_user_status u w) =
       (let elapsed = clock w - ts;
            d = elapsed div 86400000000;
            s = elapsed mod 86400000000 div 1000000
        in if d > 365 then ''Last seen: '' @ int_str (d div 365) @ '' year(s) ago''
           else if d > 30 then ''Last seen: '' @ int_str (d div 30) @ '' month(s) ago''
           else if d > 0 then ''Last seen: '' @ int_str d @ '' day(s) ago''
           else if s > 3600 then ''Last seen: '' @ int_str (s div 3600) @ '' hour(s) ago''
           else if s > 60 then ''Last seen: '' @ int_str (s div 60) @ '' minute(s) ago''
           else ''Last seen: Recently'')
     \<and> (clock w - ts = 400 * 86400000000 \<longrightarrow>
          fst (get_user_status u w) = ''Last seen: 1 year(s) ago'')
     \<and> (clock w - ts = 40 * 60 * 1000000 \<longrightarrow>
          fst (get_user_status u w) = ''Last seen: 40 minute(s) ago'')"
proof -
  assume a: "status u = Some st" "was_online st = WasDatetime ts"
  have 1: "fst (get_user_status u w) =
       (let elapsed = clock w - ts;
            d = elapsed div 86400000000;
            s = elapsed mod 86400000000 div 1000000
        in if d > 365 then ''Last seen: '' @ int_str (d div 365) @ '' year(s) ago''
           else if d > 30 then ''Last seen: '' @ int_str (d div 30) @ '' month(s) ago''
           else if d > 0 then ''Last seen: '' @ int_str d @ '' day(s) ago''
           else if s > 3600 then ''Last seen: '' @ int_str (s div 3600) @ '' hour(s) ago''
           else if s > 60 then ''Last seen: '' @ int_str (s div 60) @ '' minute(s) ago''
           else ''Last seen: Recently'')"
    unfolding get_user_status_datetime [OF a]
    by (simp add: last_seen_label_def datetime_sub_def Let_def)
  have 2: "clock w - ts = 400 * 86400000000 \<longrightarrow>
          fst (get_user_status u w) = ''Last seen: 1 year(s) ago''"
    unfolding get_user_status_datetime [OF a] by (rule impI) (rule label_400_days)
  have 3: "clock w - ts = 40 * 60 * 1000000 \<longrightarrow>
          fst (get_user_status u w) = ''Last seen: 40 minute(s) ago''"
    unfolding get_user_status_datetime [OF a] by (rule impI) (rule label_40_minutes)
  show ?thesis by (intro conjI 1 2 3)
qed

theorem last_seen_classification_witness:
  "status (offline_user (- 34560000000000))
     = Some \<lparr>type_name = ''UserStatusOffline'', was_online = WasDatetime (- 34560000000000)\<rparr>
   \<and> clock w0 - (- 34560000000000) = 400 * 86400000000
   \<and> fst (get_user_status (offline_user (- 34560000000000)) w0) = ''Last seen: 1 year(s) ago''
   \<and> clock w0 - (- 2400000000) = 40 * 60 * 1000000
   \<and> fst (get_user_status (offline_user (- 2400000000)) w0) = ''Last seen: 40 minute(s) ago''"
proof -
  have s: "status (offline_user ts)
     = Some \<lparr>type_name = ''UserStatusOffline'', was_online = WasDatetime ts\<rparr>" for ts
    by (simp add: offline_user_def)
  have o: "was_online \<lparr>type_name = ''UserStatusOffline'', was_online = WasDatetime ts\<rparr>
     = WasDatetime ts" for ts
    by simp
  have a: "clock w0 - (- 34560000000000) = 400 * 86400000000"
    by (simp add: w0_def)
  have b: "clock w0 - (- 2400000000) = 40 * 60 * 1000000"
    by (simp add: w0_def)
  note r1 = last_seen_classification [OF s o, of "- 34560000000000" w0,
              THEN conjunct2, THEN conjunct1, THEN mp, OF a]
  note r2 = last_seen_classification [OF s o, of "- 2400000000" w0,
              THEN conjunct2, THEN conjunct2, THEN mp, OF b]
  show ?thesis by (intro conjI s a r1 b r2)
qed

subsection \<open>The estimators as functions of their input and the clock\<close>

lemma registration_world:
  "fst (estimate_registration_date v w) = fst (estimate_registration_date v w')"
  by (simp add: estimate_registration_date_def split: sum.splits)

lemma country_world: "fst (estimate_country ucd u w) = fst (estimate_country ucd u w')"
  by (simp add: estimate_country_def split: sum.splits)

lemma status_world:
  "clock w = clock w' \<Longrightarrow> fst (get_user_status u w) = fst (get_user_status u w')"
  by (simp add: get_user_status_def split: sum.splits)

lemma registration_clock: "clock (snd (estimate_registration_date v w)) = clock w"
  by (simp add: estimate_registration_date_def logger_error_def split: sum.splits)

lemma country_clock: "clock (snd (estimate_country ucd u w)) = clock w"
  by (simp add: estimate_country_def logger_error_def split: sum.splits)

lemma status_clock: "clock (snd (get_user_status u w)) = clock w"
  by (simp add: get_user_status_def logger_error_def split: sum.splits)

text \<open>
  C9. The value that an estimator returns is determined by its input, and for the status
  by the clock as well: in two worlds, whatever their logs, the registration date and the
  country are the same, and the status label is the same when the two clocks agree. A
  second call with the same input, made in the world that the first call leaves (the
  clock frozen, the log possibly longer), returns what the first call returned.
\<close>

theorem estimators_deterministic:
  "fst (estimate_registration_date v w) = fst (estimate_registration_date v w')
   \<and> fst (estimate_country ucd u w) = fst (estimate_country ucd u w')
   \<and> (clock w = clock w' \<longrightarrow> fst (get_user_status u w) = fst (get_user_status u w'))
   \<and> fst (estimate_registration_date v (snd (estimate_registration_date v w)))
       = fst (estimate_registration_date v w)
   \<and> fst (estimate_country ucd u (snd (estimate_country ucd u w))) = fst (estimate_country ucd u w)
   \<and> fst (get_user_status u (snd (get_user_status u w))) = fst (get_user_status u w)"
proof (intro conjI impI)
  show "fst (get_user_status u (snd (get_user_status u w))) = fst (get_user_status u w)"
    by (rule status_world) (rule status_clock)
qed (rule registration_world country_world status_world; assumption?)+

theorem estimators_deterministic_witness:
  "clock w0 = clock w1
   \<and> fst (get_user_status (offline_user (- 2400000000)) w0)
       = fst (get_user_status (offline_user (- 2400000000)) w1)
   \<and> fst (get_user_status (offline_user (- 2400000000)) w1) = ''Last seen: 40 minute(s) ago''
   \<and> fst (estimate_country ucd0 broken_user (snd (estimate_country ucd0 broken_user w0)))
       = fst (estimate_country ucd0 broken_user w0)
   \<and> log (snd (estimate_country ucd0 broken_user w0)) \<noteq> log w0"
proof -
  have c: "clock w0 = clock w1"
    by (simp add: w0_def w1_def)
  note r = estimators_deterministic
             [where w = w0 and w' = w1 and u = "offline_user (- 2400000000)",
              THEN conjunct2, THEN conjunct2, THEN conjunct1, THEN mp, OF c]
  note r2 = estimators_deterministic
             [where w = w0 and u = broken_user and ucd = ucd0,
              THEN conjunct2, THEN conjunct2, THEN conjunct2, THEN conjunct2, THEN conjunct1]
  have v: "fst (get_user_status (offline_user (- 2400000000)) w1) = ''Last seen: 40 minute(s) ago''"
    by code_simp
  have l: "log (snd (estimate_country ucd0 broken_user w0)) \<noteq> log w0"
    by code_simp
  show ?thesis by (intro conjI c r v r2 l)
qed

subsection \<open>Failures and the analysis record\<close>

lemma compile_fields:
  "registration_date (fst (compile_user_info ucd u w)) = fst (estimate_registration_date (uid u) w)"
  "country (fst (compile_user_info ucd u w)) = fst (estimate_country ucd u w)"
  "status_text (fst (compile_user_info ucd u w)) = fst (get_user_status u w)"
  "analysis_timestamp (fst (compile_user_info ucd u w)) = clock w"
proof -
  obtain r wa where a: "estimate_registration_date (uid u) w = (r, wa)"
    by (cases "estimate_registration_date (uid u) w")
  obtain c wb where b: "estimate_country ucd u wa = (c, wb)"
    by (cases "estimate_country ucd u wa")
  obtain s wc where c: "get_user_status u wb = (s, wc)"
    by (cases "get_user_status u wb")
  have ca: "clock wa = clock w" using registration_clock [of "uid u" w] by (simp add: a)
  have cb: "clock wb = clock wa" using country_clock [of ucd u wa] by (simp add: b)
  have cc: "clock wc = clock wb" using status_clock [of u wb] by (simp add: c)
  show "registration_date (fst (compile_user_info ucd u w)) = fst (estimate_registration_date (uid u) w)"
    by (simp add: compile_user_info_def a b c)
  show "country (fst (compile_user_info ucd u w)) = fst (estimate_country ucd u w)"
    using country_world [of ucd u wa w] by (simp add: compile_user_info_def a b c)
  show "status_text (fst (compile_user_info ucd u w)) = fst (get_user_status u w)"
    using status_world [of wb w u] by (simp add: compile_user_info_def a b c ca cb)
  show "analysis_timestamp (fst (compile_user_info ucd u w)) = clock w"
    by (simp add: compile_user_info_def a b c ca cb cc)
qed

lemma estimate_country_attrs:
  "lang_code u' = lang_code u \<Longrightarrow> phone u' = phone u \<Longrightarrow>
     fst (estimate_country ucd u' w') = fst (estimate_country ucd u w)"
  by (rule estimate_country_cong) simp_all

lemma get_user_status_attrs:
  "status u' = status u \<Longrightarrow> clock w' = clock w \<Longrightarrow>
     fst (get_user_status u' w') = fst (get_user_status u w)"
  by (simp add: get_user_status_def get_user_status_body_def split: sum.splits)

text \<open>
  C7. Each estimator returns a value on every input. When the body of its \<^verbatim>\<open>try\<close> raises,
  the registration estimate is the dictionary with \<open>'Unknown'\<close> date fields and
  \<open>accuracy = failed\<close>, the country is \<open>Unknown\<close> and the status is \<open>Unknown\<close>. The analysis
  record always holds the three results and the time stamp, and each entry depends on its
  own attributes only: the registration date on the identifier, the country on the
  language tag and the phone, the status on the status object and the clock. So a failure
  of one estimator leaves the other entries as they are.
\<close>

theorem estimators_never_raise:
  "(scan_ranges (uid u) id_ranges = Inl e \<longrightarrow>
      fst (estimate_registration_date (uid u) w)
        = \<lparr>year = PStr ''Unknown'', month = PStr ''Unknown'', day = PStr ''Unknown'',
           estimated = True, accuracy = ''failed''\<rparr>)
   \<and> (estimate_country_body ucd u = Inl e \<longrightarrow> fst (estimate_country ucd u w) = ''Unknown'')
   \<and> (get_user_status_body u (clock w) = Inl e \<longrightarrow> fst (get_user_status u w) = ''Unknown'')
   \<and> fst (compile_user_info ucd u w)
       = \<lparr>registration_date = fst (estimate_registration_date (uid u) w),
          country = fst (estimate_country ucd u w),
          status_text = fst (get_user_status u w),
          analysis_timestamp = clock w\<rparr>
   \<and> (uid u' = uid u \<longrightarrow>
        registration_date (fst (compile_user_info ucd u' w'))
          = registration_date (fst (compile_user_info ucd u w)))
   \<and> (lang_code u' = lang_code u \<and> phone u' = phone u \<longrightarrow>
        country (fst (compile_user_info ucd u' w')) = country (fst (compile_user_info ucd u w)))
   \<and> (status u' = status u \<and> clock w' = clock w \<longrightarrow>
        status_text (fst (compile_user_info ucd u' w'))
          = status_text (fst (compile_user_info ucd u w)))"
proof -
  have 1: "scan_ranges (uid u) id_ranges = Inl e \<longrightarrow>
      fst (estimate_registration_date (uid u) w)
        = \<lparr>year = PStr ''Unknown'', month = PStr ''Unknown'', day = PStr ''Unknown'',
           estimated = True, accuracy = ''failed''\<rparr>"
    by (simp add: estimate_registration_date_def failed_estimate_def)
  have 2: "estimate_country_body ucd u = Inl e \<longrightarrow> fst (estimate_country ucd u w) = ''Unknown''"
    by (simp add: estimate_country_def)
  have 3: "get_user_status_body u (clock w) = Inl e \<longrightarrow>
      fst (get_user_status u w) = ''Unknown''"
    by (simp add: get_user_status_def)
  have 4: "fst (compile_user_info ucd u w)
       = \<lparr>registration_date = fst (estimate_registration_date (uid u) w),
          country = fst (estimate_country ucd u w),
          status_text = fst (get_user_status u w),
          analysis_timestamp = clock w\<rparr>"
    by (rule user_info.equality) (simp_all add: compile_fields)
  have 5: "uid u' = uid u \<longrightarrow>
        registration_date (fst (compile_user_info ucd u' w'))
          = registration_date (fst (compile_user_info ucd u w))"
    using registration_world [of "uid u" w' w] by (simp add: compile_fields)
  have 6: "lang_code u' = lang_code u \<and> phone u' = phone u \<longrightarrow>
        country (fst (compile_user_info ucd u' w')) = country (fst (compile_user_info ucd u w))"
    using estimate_country_attrs [where u = u and u' = u' and ucd = ucd and w = w and w' = w'] by (simp add: compile_fields)
  have 7: "status u' = status u \<and> clock w' = clock w \<longrightarrow>
        status_text (fst (compile_user_info ucd u' w'))
          = status_text (fst (compile_user_info ucd u w))"
    using get_user_status_attrs [of u' u w' w] by (simp add: compile_fields)
  show ?thesis by (intro conjI 1 2 3 4 5 6 7)
qed

theorem estimators_never_raise_witness:
  "scan_ranges (uid broken_user) id_ranges = Inl TypeError
   \<and> fst (estimate_registration_date (uid broken_user) w0)
       = \<lparr>year = PStr ''Unknown'', month = PStr ''Unknown'', day = PStr ''Unknown'',
          estimated = True, accuracy = ''failed''\<rparr>
   \<and> estimate_country_body ucd0 broken_user = Inl AttributeError
   \<and> fst (estimate_country ucd0 broken_user w0) = ''Unknown''
   \<and> get_user_status_body broken_user (clock w0) = Inl ValueError
   \<and> fst (get_user_status broken_user w0) = ''Unknown''
   \<and> (lang_code (broken_user\<lparr>uid := PInt 500\<rparr>) = lang_code broken_user
       \<and> phone (broken_user\<lparr>uid := PInt 500\<rparr>) = phone broken_user)
   \<and> country (fst (compile_user_info ucd0 (broken_user\<lparr>uid := PInt 500\<rparr>) w1))
       = country (fst (compile_user_info ucd0 broken_user w0))
   \<and> (status (broken_user\<lparr>uid := PInt 500\<rparr>) = status broken_user \<and> clock w1 = clock w0)
   \<and> status_text (fst (compile_user_info ucd0 (broken_user\<lparr>uid := PInt 500\<rparr>) w1))
       = status_text (fst (compile_user_info ucd0 broken_user w0))
   \<and> uid (broken_user\<lparr>lang_code := Some (PStr (ascii ''en''))\<rparr>) = uid broken_user
   \<and> registration_date (fst (compile_user_info ucd0 (broken_user\<lparr>lang_code := Some (PStr (ascii ''en''))\<rparr>) w1))
       = registration_date (fst (compile_user_info ucd0 broken_user w0))
   \<and> fst (compile_user_info ucd0 (broken_user\<lparr>uid := PInt 500\<rparr>) w0)
       = \<lparr>registration_date =
            \<lparr>year = PInt 2013, month = PInt 8, day = PInt 14, estimated = True,
             accuracy = ''approximate''\<rparr>,
          country = ''Unknown'', status_text = ''Unknown'', analysis_timestamp = 0\<rparr>"
proof -
  have a1: "scan_ranges (uid broken_user) id_ranges = Inl TypeError"
    by code_simp
  have a2: "estimate_country_body ucd0 broken_user = Inl AttributeError"
    by code_simp
  have a3: "get_user_status_body broken_user (clock w0) = Inl ValueError"
    by code_simp
  have a5: "uid (broken_user\<lparr>lang_code := Some (PStr (ascii ''en''))\<rparr>) = uid broken_user"
    by simp
  have a6: "lang_code (broken_user\<lparr>uid := PInt 500\<rparr>) = lang_code broken_user
       \<and> phone (broken_user\<lparr>uid := PInt 500\<rparr>) = phone broken_user"
    by simp
  have a7: "status (broken_user\<lparr>uid := PInt 500\<rparr>) = status broken_user \<and> clock w1 = clock w0"
    by (simp add: w0_def w1_def)
  note T = estimators_never_raise [where u = broken_user and w = w0 and ucd = ucd0]
  note r1 = T [THEN conjunct1, THEN mp, OF a1]
  note r2 = T [THEN conjunct2, THEN conjunct1, THEN mp, OF a2]
  note r3 = T [THEN conjunct2, THEN conjunct2, THEN conjunct1, THEN mp, OF a3]
  note r5 = T [where u' = "broken_user\<lparr>lang_code := Some (PStr (ascii ''en''))\<rparr>" and w' = w1,
               THEN conjunct2, THEN conjunct2, THEN conjunct2, THEN conjunct2, THEN conjunct1,
               THEN mp, OF a5]
  note r6 = T [where u' = "broken_user\<lparr>uid := PInt 500\<rparr>" and w' = w1,
               THEN conjunct2, THEN conjunct2, THEN conjunct2, THEN conjunct2, THEN conjunct2,
               THEN conjunct1, THEN mp, OF a6]
  note r7 = T [where u' = "broken_user\<lparr>uid := PInt 500\<rparr>" and w' = w1,
               THEN conjunct2, THEN conjunct2, THEN conjunct2, THEN conjunct2, THEN conjunct2,
               THEN conjunct2, THEN mp, OF a7]
  have v: "fst (compile_user_info ucd0 (broken_user\<lparr>uid := PInt 500\<rparr>) w0)
       = \<lparr>registration_date =
            \<lparr>year = PInt 2013, month = PInt 8, day = PInt 14, estimated = True,
             accuracy = ''approximate''\<rparr>,
          country = ''Unknown'', status_text = ''Unknown'', analysis_timestamp = 0\<rparr>"
    by code_simp
  show ?thesis by (intro conjI a1 r1 a2 r2 a3 r3 a6 r6 a7 r7 a5 r5 v)
qed

end
